theory Spec2Isabelle
  imports Complex_Main
begin

section \<open>Python values and failures\<close>

text \<open>
  The simulation is Python over floating-point numbers.  Finite floating-point values are
  idealised as reals; the non-finite values that numpy produces instead of raising are kept
  apart, because the source divides by values that can be zero.

  \<open>Unmodelled\<close> is not a Python exception: it marks the places where the Python value
  leaves what the model represents (the complex number that \<open>calculate_mfd\<close> computes at
  a negative V, an array used as an operand of the summary's arithmetic).  No theorem below
  rests on such a value.
\<close>

datatype py_error =
  TypeError | IndexError | KeyError | ValueError | ZeroDivisionError | Unmodelled

datatype flt = Finite real | PosInf | NegInf | NaN

datatype scalar = PyInt int | NpFloat flt

datatype pyval =
    Scalar scalar
  | Array1 "real list"
  | Array2 "real list list"
  | PyList "pyval list"

type_synonym pydict = "(string \<times> pyval) list"

definition getitem :: "pydict \<Rightarrow> string \<Rightarrow> py_error + pyval" where
  "getitem d k = (case map_of d k of None \<Rightarrow> Inl KeyError | Some v \<Rightarrow> Inr v)"

text \<open>\<open>xs[-1]\<close> on a Python list.\<close>

definition last_item :: "'a list \<Rightarrow> py_error + 'a" where
  "last_item xs = (if xs = [] then Inl IndexError else Inr (last xs))"

text \<open>
  Division of a numpy \<open>float64\<close> by a count: numpy does not raise on a zero divisor, it
  returns an infinity or NaN (with a warning).
\<close>

definition np_div :: "real \<Rightarrow> nat \<Rightarrow> flt" where
  "np_div x n =
     (if n = 0 then (if 0 < x then PosInf else if x < 0 then NegInf else NaN)
      else Finite (x / real n))"

text \<open>
  \<open>np.linspace(a, b, n)\<close>: \<open>n\<close> evenly spaced samples from \<open>a\<close> to \<open>b\<close>, both ends
  included.
\<close>

definition np_linspace :: "real \<Rightarrow> real \<Rightarrow> nat \<Rightarrow> real list" where
  "np_linspace a b n =
     (if n = 1 then [a]
      else map (\<lambda>i. a + real i * ((b - a) / real (n - 1))) [0..<n])"

section \<open>The LightPipes library\<close>

text \<open>
  A LightPipes field: the complex amplitudes on an \<open>N \<times> N\<close> grid (a list of rows) with the
  window size, the wavelength and the grid resolution it was begun with.
\<close>

record Field =
  field :: "complex list list"
  siz :: real
  lam :: real
  N :: nat

text \<open>
  LightPipes is a third-party package; the repository only calls it.  The calls the source
  makes are parameters of the model: each takes a field value and returns a new one.
\<close>

record lightpipes =
  Begin :: "real \<Rightarrow> real \<Rightarrow> nat \<Rightarrow> Field"
  GaussBeam :: "Field \<Rightarrow> real \<Rightarrow> Field"
  CircAperture :: "Field \<Rightarrow> real \<Rightarrow> Field"
  SubPhase :: "Field \<Rightarrow> real list list \<Rightarrow> Field"
  Fresnel :: "Field \<Rightarrow> real \<Rightarrow> Field"

text \<open>
  Modelled from the spec: LightPipes' \<open>Intensity\<close> is not under src/; section 4.6 of the
  spec gives it as the pointwise intensity (squared magnitude) of the field.
\<close>

definition Intensity :: "Field \<Rightarrow> real list list" where
  "Intensity F = map (map (\<lambda>z. (cmod z)\<^sup>2)) (field F)"

section \<open>SMF28Simulator\<close>

record simulator =
  wavelength :: real
  core_radius :: real
  cladding_radius :: real
  na :: real
  grid_size :: nat
  physical_size :: real
  lp :: Field
  v_number :: real
  mfd :: real

text \<open>
  \<open>calculate_mfd\<close>.  For \<open>0 < V\<close> Python's \<open>V**1.5\<close> is the real power; at
  \<open>V = 0\<close> the float division \<open>1.619/0.0\<close> raises, and at \<open>V < 0\<close> the power is
  complex.
\<close>

definition calculate_mfd :: "simulator \<Rightarrow> py_error + real" where
  "calculate_mfd s =
     (if v_number s < 2.405 then
        (if v_number s < 0 then Inl Unmodelled
         else if v_number s = 0 then Inl ZeroDivisionError
         else
           (let w0_over_a = 0.65 + 1.619 / v_number s powr 1.5 + 2.879 / v_number s ^ 6
            in Inr (2 * w0_over_a * core_radius s)))
      else Inr (2 * core_radius s))"

text \<open>
  \<open>__init__\<close>, in its three steps.  The attributes \<open>v_number\<close> and \<open>mfd\<close> do not
  exist before their assignment; the record holds \<open>0\<close> there, which nothing reads.  The
  four \<open>print\<close> lines of the constructor are console output and are left out.
\<close>

definition fiber_parameters :: "lightpipes \<Rightarrow> simulator" where
  "fiber_parameters LP =
     \<lparr>wavelength = 1550 / 10 ^ 9,
      core_radius = 4.5 / 10 ^ 6,
      cladding_radius = 62.5 / 10 ^ 6,
      na = 0.12,
      grid_size = 512,
      physical_size = 500 / 10 ^ 6,
      lp = Begin LP (500 / 10 ^ 6) (1550 / 10 ^ 9) 512,
      v_number = 0,
      mfd = 0\<rparr>"

definition init_v_number :: "simulator \<Rightarrow> py_error + simulator" where
  "init_v_number s =
     (if wavelength s = 0 then Inl ZeroDivisionError
      else Inr (s\<lparr>v_number := (2 * pi * core_radius s * na s) / wavelength s\<rparr>))"

definition init_mfd :: "simulator \<Rightarrow> py_error + simulator" where
  "init_mfd s = (case calculate_mfd s of Inl e \<Rightarrow> Inl e | Inr m \<Rightarrow> Inr (s\<lparr>mfd := m\<rparr>))"

definition init :: "lightpipes \<Rightarrow> py_error + simulator" where
  "init LP =
     (case init_v_number (fiber_parameters LP) of
        Inl e \<Rightarrow> Inl e
      | Inr s \<Rightarrow> init_mfd s)"

text \<open>
  The call of \<open>SMF28Simulator\<close> with positional arguments \<open>args\<close> and keyword
  arguments \<open>kwargs\<close>.  \<open>__init__(self)\<close> declares no parameter besides \<open>self\<close>, so
  Python raises \<open>TypeError\<close> for any argument before the body runs.
\<close>

definition construct ::
  "lightpipes \<Rightarrow> pyval list \<Rightarrow> (string \<times> pyval) list \<Rightarrow> py_error + simulator" where
  "construct LP args kwargs = (if args = [] \<and> kwargs = [] then init LP else Inl TypeError)"

text \<open>
  The object the constructor returns (see \<open>init_SMF28\<close> below): the constants of
  \<open>__init__\<close>, the V number computed from them and the single-mode branch of
  \<open>calculate_mfd\<close>.
\<close>

definition SMF28 :: "lightpipes \<Rightarrow> simulator" where
  "SMF28 LP =
     (let V = (2 * pi * (4.5 / 10 ^ 6) * 0.12) / (1550 / 10 ^ 9)
      in (fiber_parameters LP)
           \<lparr>v_number := V,
            mfd := 2 * (0.65 + 1.619 / V powr 1.5 + 2.879 / V ^ 6) * (4.5 / 10 ^ 6)\<rparr>)"

text \<open>
  \<open>create_fiber_mode\<close>, \<open>flat_endface\<close> and \<open>concave_endface\<close>.  The arguments that
  Python defaults (\<open>distance=1e-3\<close>, \<open>curvature_radius=50e-6\<close>,
  \<open>aperture_factor=2.0\<close>) are explicit here.
\<close>

definition create_fiber_mode :: "lightpipes \<Rightarrow> simulator \<Rightarrow> Field" where
  "create_fiber_mode LP s =
     (let beam = lp s;
          beam = GaussBeam LP beam (mfd s / 2);
          beam = CircAperture LP beam (cladding_radius s)
      in beam)"

definition flat_endface :: "lightpipes \<Rightarrow> simulator \<Rightarrow> real \<Rightarrow> Field" where
  "flat_endface LP s distance =
     (let beam = create_fiber_mode LP s;
          beam = Fresnel LP beam distance
      in beam)"

text \<open>
  The phase mask of \<open>concave_endface\<close>: \<open>X, Y = np.meshgrid(x, y)\<close> puts \<open>x ! i\<close> and
  \<open>y ! j\<close> at row \<open>j\<close>, column \<open>i\<close>; the mask starts as zeros and is overwritten where
  \<open>R <= aperture_radius\<close>.  (With \<open>curvature_radius = 0\<close> numpy fills the region with
  infinities and NaN, which a list of reals does not hold; the source only calls it with the
  positive radii of the sweep.)
\<close>

definition phase_mask :: "simulator \<Rightarrow> real \<Rightarrow> real \<Rightarrow> real list list" where
  "phase_mask s curvature_radius aperture_radius =
     (let x = np_linspace (- physical_size s / 2) (physical_size s / 2) (grid_size s);
          y = np_linspace (- physical_size s / 2) (physical_size s / 2) (grid_size s);
          k = 2 * pi / wavelength s
      in map (\<lambda>Y. map (\<lambda>X.
            (let R = sqrt (X\<^sup>2 + Y\<^sup>2)
             in if R \<le> aperture_radius then k * R\<^sup>2 / (2 * curvature_radius) else 0)) x) y)"

definition concave_endface ::
  "lightpipes \<Rightarrow> simulator \<Rightarrow> real \<Rightarrow> real \<Rightarrow> real \<Rightarrow> Field" where
  "concave_endface LP s curvature_radius aperture_factor distance =
     (let beam = create_fiber_mode LP s;
          aperture_radius = core_radius s * aperture_factor;
          beam = SubPhase LP beam (phase_mask s curvature_radius aperture_radius);
          beam = CircAperture LP beam aperture_radius;
          beam = Fresnel LP beam distance
      in beam)"

text \<open>
  \<open>analyze_beam\<close>.  \<open>intensity[center_idx, :]\<close> raises \<open>IndexError\<close> when the array has
  no such row, and \<open>np.max\<close> raises \<open>ValueError\<close> on an array without elements.  The
  width is a numpy \<open>float64\<close> when some sample is above the threshold, and the Python
  integer \<open>0\<close> otherwise.
\<close>

definition analyze_beam :: "simulator \<Rightarrow> Field \<Rightarrow> py_error + pydict" where
  "analyze_beam s beam =
     (let intensity = Intensity beam;
          center_idx = grid_size s div 2
      in if length intensity \<le> center_idx then Inl IndexError
         else
           (let x_profile = intensity ! center_idx
            in if concat intensity = [] then Inl ValueError
               else
                 (let max_intensity = Max (set (concat intensity));
                      threshold = max_intensity / (exp 1)\<^sup>2;
                      x_coords =
                        np_linspace (- physical_size s / 2) (physical_size s / 2) (grid_size s);
                      x_indices = filter (\<lambda>i. threshold < x_profile ! i) [0..<length x_profile];
                      beam_width =
                        (if 0 < length x_indices
                         then NpFloat
                           (np_div
                             (of_int (int (last x_indices) - int (hd x_indices)) * physical_size s)
                             (grid_size s))
                         else PyInt 0)
                  in Inr
                       [(''intensity'', Array2 intensity),
                        (''beam_width'', Scalar beam_width),
                        (''max_intensity'', Scalar (NpFloat (Finite max_intensity))),
                        (''x_coords'', Array1 x_coords),
                        (''x_profile'', Array1 x_profile)])))"

subsection \<open>The arithmetic of the printed summary\<close>

text \<open>
  Python's \<open>/\<close> on the beam widths.  Two Python integers divide with
  \<open>ZeroDivisionError\<close> on a zero divisor; as soon as one operand is a numpy \<open>float64\<close>
  the division is numpy's, which returns an infinity or NaN instead of raising.  Floating
  zero is taken as \<open>+0\<close>.
\<close>

fun to_flt :: "scalar \<Rightarrow> flt" where
  "to_flt (PyInt n) = Finite (of_int n)"
| "to_flt (NpFloat x) = x"

fun flt_div :: "flt \<Rightarrow> flt \<Rightarrow> flt" where
  "flt_div NaN y = NaN"
| "flt_div x NaN = NaN"
| "flt_div (Finite x) (Finite y) =
     (if y = 0 then (if 0 < x then PosInf else if x < 0 then NegInf else NaN)
      else Finite (x / y))"
| "flt_div (Finite x) y = Finite 0"
| "flt_div PosInf (Finite y) = (if y < 0 then NegInf else PosInf)"
| "flt_div NegInf (Finite y) = (if y < 0 then PosInf else NegInf)"
| "flt_div x y = NaN"

fun flt_sub :: "flt \<Rightarrow> real \<Rightarrow> flt" where
  "flt_sub (Finite x) c = Finite (x - c)"
| "flt_sub x c = x"

fun flt_mul :: "flt \<Rightarrow> real \<Rightarrow> flt" where
  "flt_mul (Finite x) c = Finite (x * c)"
| "flt_mul NaN c = NaN"
| "flt_mul PosInf c = (if 0 < c then PosInf else if c < 0 then NegInf else NaN)"
| "flt_mul NegInf c = (if 0 < c then NegInf else if c < 0 then PosInf else NaN)"

fun is_finite :: "flt \<Rightarrow> bool" where
  "is_finite (Finite x) = True"
| "is_finite x = False"

fun truediv :: "pyval \<Rightarrow> pyval \<Rightarrow> py_error + flt" where
  "truediv (Scalar (PyInt a)) (Scalar (PyInt b)) =
     (if b = 0 then Inl ZeroDivisionError else Inr (Finite (of_int a / of_int b)))"
| "truediv (Scalar a) (Scalar b) = Inr (flt_div (to_flt a) (to_flt b))"
| "truediv a b = Inl Unmodelled"

text \<open>
  The percentage of the last \<open>print\<close> of \<open>parameter_study\<close>:
  \<open>(beam_widths_concave[-1]/beam_widths_flat[-1]-1)*100\<close>.
\<close>

definition divergence_increase :: "pyval \<Rightarrow> pyval \<Rightarrow> py_error + flt" where
  "divergence_increase concave_width flat_width =
     (case truediv concave_width flat_width of
        Inl e \<Rightarrow> Inl e
      | Inr q \<Rightarrow> Inr (flt_mul (flt_sub q 1) 100))"

subsection \<open>The parameter study\<close>

definition and_then :: "py_error + 'a \<Rightarrow> ('a \<Rightarrow> py_error + 'b) \<Rightarrow> py_error + 'b" where
  "and_then m f = (case m of Inl e \<Rightarrow> Inl e | Inr x \<Rightarrow> f x)"

text \<open>
  The \<open>for radius in curvature_radii\<close> loop, with the two lists it appends to.
\<close>

fun sweep ::
  "lightpipes \<Rightarrow> simulator \<Rightarrow> real \<Rightarrow> real list \<Rightarrow> pyval list \<Rightarrow> pyval list
     \<Rightarrow> py_error + (pyval list \<times> pyval list)" where
  "sweep LP s distance [] beam_widths_flat beam_widths_concave =
     Inr (beam_widths_flat, beam_widths_concave)"
| "sweep LP s distance (radius # radii) beam_widths_flat beam_widths_concave =
     and_then (analyze_beam s (flat_endface LP s distance)) (\<lambda>flat_analysis.
     and_then (getitem flat_analysis ''beam_width'') (\<lambda>flat_width.
     and_then (analyze_beam s (concave_endface LP s radius 2.0 distance)) (\<lambda>concave_analysis.
     and_then (getitem concave_analysis ''beam_width'') (\<lambda>concave_width.
       sweep LP s distance radii
         (beam_widths_flat @ [flat_width]) (beam_widths_concave @ [concave_width])))))"

text \<open>
  \<open>np.max\<close> of a profile, for the normalisation in the fourth plot.
\<close>

definition profile_max :: "pyval \<Rightarrow> py_error + real" where
  "profile_max v =
     (case v of
        Array1 xs \<Rightarrow> (if xs = [] then Inl ValueError else Inr (Max (set xs)))
      | _ \<Rightarrow> Inl Unmodelled)"

text \<open>
  \<open>parameter_study\<close>: the sweep, the recomputation at the test radius for the plots, and
  the summary.  The matplotlib calls and the prints are left out but for the printed
  percentage, which is returned next to the dictionary the method returns.
\<close>

definition parameter_study :: "lightpipes \<Rightarrow> simulator \<Rightarrow> py_error + (flt \<times> pydict)" where
  "parameter_study LP s =
     (let curvature_radii = map (\<lambda>r. r * (1 / 10 ^ 6)) [30, 50, 75, 100, 150, 200];
          distance = 1 / 10 ^ 3
      in
        and_then (sweep LP s distance curvature_radii [] [])
          (\<lambda>(beam_widths_flat, beam_widths_concave).
        and_then (analyze_beam s (flat_endface LP s distance)) (\<lambda>flat_analysis.
        and_then (analyze_beam s (concave_endface LP s (50 / 10 ^ 6) 2.0 distance))
          (\<lambda>concave_analysis.
        and_then (getitem flat_analysis ''x_profile'') (\<lambda>flat_profile.
        and_then (profile_max flat_profile) (\<lambda>flat_max.
        and_then (getitem concave_analysis ''x_profile'') (\<lambda>concave_profile.
        and_then (profile_max concave_profile) (\<lambda>concave_max.
        and_then (last_item beam_widths_flat) (\<lambda>flat_width.
        and_then (last_item beam_widths_concave) (\<lambda>concave_width.
        and_then (divergence_increase concave_width flat_width) (\<lambda>increase.
          Inr (increase,
               [(''curvature_radii'', Array1 curvature_radii),
                (''beam_widths_flat'', PyList beam_widths_flat),
                (''beam_widths_concave'', PyList beam_widths_concave)]))))))))))))"

section \<open>The environment launcher\<close>

text \<open>
  \<open>run_in_env.py\<close>.  What the script sees of its environment: whether
  \<open>fiber_optics_simulation.py\<close> exists in the working directory, and the exit status of
  the shell command \<open>conda run -n fiber_optics python fiber_optics_simulation.py\<close>
  (non-zero when the simulation fails and when the shell cannot start it).
  \<open>subprocess.run(..., check=True)\<close> raises \<open>CalledProcessError\<close> exactly on a non-zero
  status, and \<open>main\<close> catches it.
\<close>

record launcher_env =
  file_exists :: bool
  returncode :: int

definition main :: "launcher_env \<Rightarrow> bool" where
  "main env =
     (if \<not> file_exists env then False
      else if returncode env = 0 then True
      else False)"

text \<open>
  The script's last lines are \<open>if __name__ == "__main__": main()\<close>: the value
  \<open>main\<close> returns is dropped, the module body ends normally and the interpreter exits
  with status 0.
\<close>

definition exit_code :: "launcher_env \<Rightarrow> int" where
  "exit_code env = (let result = main env in 0)"

section \<open>Reference definitions\<close>

subsection \<open>The specification's wording of the beam width, the sampling criterion and the cached sweep\<close>

text \<open>
  The index of the first and of the last sample of a profile that is strictly above a
  threshold, read off the profile itself (not through \<open>np.where\<close>).
\<close>

definition first_above :: "real \<Rightarrow> real list \<Rightarrow> nat" where
  "first_above t xs = length (takeWhile (\<lambda>x. \<not> t < x) xs)"

definition last_above :: "real \<Rightarrow> real list \<Rightarrow> nat" where
  "last_above t xs = length xs - 1 - length (takeWhile (\<lambda>x. \<not> t < x) (rev xs))"

text \<open>
  The Fresnel-regime sampling criterion of section 4.5 of the spec: grid spacing squared
  at least \<open>wavelength \<sqdot> z / N\<close>, the grid spacing being \<open>L / N\<close>.
\<close>

definition fresnel_sampling_ok :: "simulator \<Rightarrow> real \<Rightarrow> bool" where
  "fresnel_sampling_ok s z =
     (wavelength s * z / real (grid_size s) \<le> (physical_size s / real (grid_size s))\<^sup>2)"

text \<open>
  The sweep as section 9 of the spec proposes it: the flat-endface width is computed once
  and reused for every radius.
\<close>

definition flat_beam_width :: "lightpipes \<Rightarrow> simulator \<Rightarrow> real \<Rightarrow> py_error + pyval" where
  "flat_beam_width LP s distance =
     and_then (analyze_beam s (flat_endface LP s distance)) (\<lambda>flat_analysis.
       getitem flat_analysis ''beam_width'')"

fun concave_beam_widths ::
  "lightpipes \<Rightarrow> simulator \<Rightarrow> real \<Rightarrow> real list \<Rightarrow> py_error + pyval list" where
  "concave_beam_widths LP s distance [] = Inr []"
| "concave_beam_widths LP s distance (radius # radii) =
     and_then (analyze_beam s (concave_endface LP s radius 2.0 distance)) (\<lambda>concave_analysis.
     and_then (getitem concave_analysis ''beam_width'') (\<lambda>concave_width.
     and_then (concave_beam_widths LP s distance radii) (\<lambda>rest.
       Inr (concave_width # rest))))"

definition sweep_cached ::
  "lightpipes \<Rightarrow> simulator \<Rightarrow> real \<Rightarrow> real list \<Rightarrow> py_error + (pyval list \<times> pyval list)" where
  "sweep_cached LP s distance radii =
     and_then (flat_beam_width LP s distance) (\<lambda>flat_width.
     and_then (concave_beam_widths LP s distance radii) (\<lambda>concave_widths.
       Inr (replicate (length radii) flat_width, concave_widths)))"

subsection \<open>The grid of the phase mask\<close>

text \<open>
  The grid points on which \<open>concave_endface\<close> builds its mask are the samples of
  \<open>np.linspace(-L/2, L/2, N)\<close> in both directions; \<open>radial_distance s j i\<close> is the
  distance from the centre of the point in row \<open>j\<close> and column \<open>i\<close>.
\<close>

definition grid_coordinate :: "simulator \<Rightarrow> nat \<Rightarrow> real" where
  "grid_coordinate s i =
     - physical_size s / 2 + real i * (physical_size s / real (grid_size s - 1))"

definition radial_distance :: "simulator \<Rightarrow> nat \<Rightarrow> nat \<Rightarrow> real" where
  "radial_distance s j i = sqrt ((grid_coordinate s i)\<^sup>2 + (grid_coordinate s j)\<^sup>2)"

subsection \<open>Example fields\<close>

text \<open>
  Two fields on the constructor's grid (\<open>512 \<times> 512\<close> samples over \<open>500e-6\<close> at
  \<open>1550e-9\<close>): the field that has the same amplitude everywhere, and a field that is zero
  but for two unit samples in the centre row, at columns 100 and 300.
\<close>

definition constant_field :: "complex \<Rightarrow> Field" where
  "constant_field c =
     \<lparr>field = replicate 512 (replicate 512 c), siz = 500 / 10 ^ 6, lam = 1550 / 10 ^ 9, N = 512\<rparr>"

definition two_spot_row :: "complex list" where
  "two_spot_row = replicate 100 0 @ [1] @ replicate 199 0 @ [1] @ replicate 211 0"

definition two_spot_field :: Field where
  "two_spot_field =
     \<lparr>field = replicate 256 (replicate 512 0) @ [two_spot_row] @ replicate 255 (replicate 512 0),
      siz = 500 / 10 ^ 6, lam = 1550 / 10 ^ 9, N = 512\<rparr>"

subsection \<open>A reference library\<close>

text \<open>
  Modelled from the spec: LightPipes is not under src/.  Sections 4.2 to 4.5 of the spec
  describe what its operations do to a field: seeding with a Gaussian amplitude of a given
  waist centred on the grid, clipping to a circular aperture, multiplying by
  \<open>exp(i \<sqdot> phase)\<close> pointwise, and propagating by the Fourier-domain transfer function
  \<open>exp(i k z) exp(- i \<pi> \<lambda> z (fx\<^sup>2 + fy\<^sup>2))\<close>.  The theorems about the pipeline are proved for
  every library; this one serves to state instances of them without a free parameter.
\<close>

definition grid_point :: "Field \<Rightarrow> nat \<Rightarrow> real" where
  "grid_point F i = (real i - real (N F) / 2) * (siz F / real (N F))"

definition sample :: "Field \<Rightarrow> nat \<Rightarrow> nat \<Rightarrow> complex" where
  "sample F j i =
     (if j < length (field F) \<and> i < length (field F ! j) then field F ! j ! i else 0)"

definition on_grid :: "(nat \<Rightarrow> nat \<Rightarrow> complex) \<Rightarrow> Field \<Rightarrow> Field" where
  "on_grid g F = F\<lparr>field := map (\<lambda>j. map (\<lambda>i. g j i) [0..<N F]) [0..<N F]\<rparr>"

definition ref_Begin :: "real \<Rightarrow> real \<Rightarrow> nat \<Rightarrow> Field" where
  "ref_Begin L l n = \<lparr>field = replicate n (replicate n 1), siz = L, lam = l, N = n\<rparr>"

definition ref_GaussBeam :: "Field \<Rightarrow> real \<Rightarrow> Field" where
  "ref_GaussBeam F w0 =
     on_grid (\<lambda>j i. of_real (exp (- ((grid_point F i)\<^sup>2 + (grid_point F j)\<^sup>2) / w0\<^sup>2))) F"

definition ref_CircAperture :: "Field \<Rightarrow> real \<Rightarrow> Field" where
  "ref_CircAperture F r =
     on_grid
       (\<lambda>j i. if sqrt ((grid_point F i)\<^sup>2 + (grid_point F j)\<^sup>2) \<le> r then sample F j i else 0) F"

definition ref_SubPhase :: "Field \<Rightarrow> real list list \<Rightarrow> Field" where
  "ref_SubPhase F phase =
     on_grid
       (\<lambda>j i. if j < length phase \<and> i < length (phase ! j)
               then sample F j i * cis (phase ! j ! i) else sample F j i) F"

definition spectrum :: "Field \<Rightarrow> nat \<Rightarrow> nat \<Rightarrow> complex" where
  "spectrum F u v =
     (\<Sum>j<N F. \<Sum>i<N F. sample F j i * cis (- 2 * pi * real (u * j + v * i) / real (N F)))"

definition frequency :: "Field \<Rightarrow> nat \<Rightarrow> real" where
  "frequency F u = (if 2 * u < N F then real u else real u - real (N F)) / siz F"

definition transfer :: "Field \<Rightarrow> real \<Rightarrow> nat \<Rightarrow> nat \<Rightarrow> complex" where
  "transfer F z u v =
     cis (2 * pi / lam F * z) * cis (- pi * lam F * z * ((frequency F v)\<^sup>2 + (frequency F u)\<^sup>2))"

definition ref_Fresnel :: "Field \<Rightarrow> real \<Rightarrow> Field" where
  "ref_Fresnel F z =
     on_grid
       (\<lambda>j i. (\<Sum>u<N F. \<Sum>v<N F.
                  spectrum F u v * transfer F z u v
                    * cis (2 * pi * real (u * j + v * i) / real (N F)))
               / of_nat (N F * N F)) F"

definition reference_library :: lightpipes where
  "reference_library =
     \<lparr>Begin = ref_Begin, GaussBeam = ref_GaussBeam, CircAperture = ref_CircAperture,
      SubPhase = ref_SubPhase, Fresnel = ref_Fresnel\<rparr>"

section \<open>Properties of the fiber mode model\<close>

lemma arctan_le_self_nonneg:
  fixes x :: real
  assumes "0 \<le> x"
  shows "arctan x \<le> x"
proof -
  have "arctan x - x \<le> arctan 0 - 0"
  proof (rule DERIV_nonpos_imp_nonincreasing [where f = "\<lambda>t. arctan t - t", OF assms])
    fix t :: real
    have "((\<lambda>t. arctan t - t) has_real_derivative (inverse (1 + t\<^sup>2) - 1)) (at t)"
      by (auto intro!: derivative_eq_intros)
    moreover have "inverse (1 + t\<^sup>2) - 1 \<le> 0"
      by (simp add: inverse_le_1_iff)
    ultimately show "\<exists>y. ((\<lambda>t. arctan t - t) has_real_derivative y) (at t) \<and> y \<le> 0"
      by blast
  qed
  then show ?thesis by simp
qed

lemma pi_less_16_5: "pi < 16 / 5"
proof -
  have "arctan (1 / 5) \<le> (1 / 5 :: real)"
    by (rule arctan_le_self_nonneg) simp
  moreover have "0 < arctan (1 / 239 :: real)"
    by simp
  ultimately show ?thesis
    using machin by linarith
qed

lemma default_v_number_bounds:
  "0 < (2 * pi * (4.5 / 10 ^ 6) * 0.12) / (1550 / 10 ^ 9 :: real)"
  "(2 * pi * (4.5 / 10 ^ 6) * 0.12) / (1550 / 10 ^ 9 :: real) < 2.405"
  using pi_less_16_5 by simp_all

lemma init_SMF28: "init LP = Inr (SMF28 LP)"
proof -
  define V :: real where "V = (2 * pi * (4.5 / 10 ^ 6) * 0.12) / (1550 / 10 ^ 9)"
  have V: "0 < V" "V < 2.405"
    unfolding V_def using default_v_number_bounds by simp_all
  have 1: "init_v_number (fiber_parameters LP) = Inr ((fiber_parameters LP)\<lparr>v_number := V\<rparr>)"
    by (simp add: init_v_number_def fiber_parameters_def V_def)
  have 2: "calculate_mfd ((fiber_parameters LP)\<lparr>v_number := V\<rparr>) =
      Inr (2 * (0.65 + 1.619 / V powr 1.5 + 2.879 / V ^ 6) * (4.5 / 10 ^ 6))"
    using V by (simp add: calculate_mfd_def fiber_parameters_def Let_def)
  have 3: "SMF28 LP = (fiber_parameters LP)\<lparr>v_number := V,
      mfd := 2 * (0.65 + 1.619 / V powr 1.5 + 2.879 / V ^ 6) * (4.5 / 10 ^ 6)\<rparr>"
    by (simp add: SMF28_def Let_def V_def)
  show ?thesis
    by (simp add: init_def 1 init_mfd_def 2 3)
qed

text \<open>
  Claim C1.  For every positive wavelength, core radius and NA the constructor's assignment
  computes \<open>V = 2\<pi> \<sqdot> core_radius \<sqdot> NA / wavelength\<close>, and on the simulator
  holding that V \<open>calculate_mfd\<close> returns
  \<open>2 \<sqdot> (0.65 + 1.619 \<sqdot> V\<^sup>-\<^sup>1\<^sup>.\<^sup>5 + 2.879 \<sqdot> V\<^sup>-\<^sup>6) \<sqdot> core_radius\<close> when \<open>V < 2.405\<close> and
  \<open>2 \<sqdot> core_radius\<close> otherwise (arithmetic over the reals).
\<close>

theorem calculate_mfd_formula:
  assumes "0 < wavelength s" and "0 < core_radius s" and "0 < na s"
  defines "V \<equiv> 2 * pi * core_radius s * na s / wavelength s"
  shows "init_v_number s = Inr (s\<lparr>v_number := V\<rparr>) \<and>
         calculate_mfd (s\<lparr>v_number := V\<rparr>) =
           Inr (if V < 2.405
                then 2 * (0.65 + 1.619 * V powr (- 1.5) + 2.879 * V powr (- 6)) * core_radius s
                else 2 * core_radius s)"
proof -
  have V: "0 < V" unfolding V_def using assms by simp
  have p6: "V powr (- 6) = 1 / V ^ 6"
    using V by (simp add: powr_neg_numeral)
  have "init_v_number s = Inr (s\<lparr>v_number := V\<rparr>)"
    using assms(1) by (simp add: init_v_number_def V_def)
  moreover have "calculate_mfd (s\<lparr>v_number := V\<rparr>) =
           Inr (if V < 2.405
                then 2 * (0.65 + 1.619 * V powr (- 1.5) + 2.879 * V powr (- 6)) * core_radius s
                else 2 * core_radius s)"
    using V by (simp add: calculate_mfd_def Let_def p6 powr_minus_divide)
  ultimately show ?thesis by simp
qed

theorem calculate_mfd_formula_witness:
  "0 < wavelength (fiber_parameters reference_library) \<and>
   0 < core_radius (fiber_parameters reference_library) \<and>
   0 < na (fiber_parameters reference_library) \<and>
   init_v_number (fiber_parameters reference_library) =
     Inr ((fiber_parameters reference_library)
            \<lparr>v_number := 2 * pi * (4.5 / 10 ^ 6) * 0.12 / (1550 / 10 ^ 9)\<rparr>) \<and>
   calculate_mfd ((fiber_parameters reference_library)
            \<lparr>v_number := 2 * pi * (4.5 / 10 ^ 6) * 0.12 / (1550 / 10 ^ 9)\<rparr>) =
     Inr (2 * (0.65 + 1.619 * (2 * pi * (4.5 / 10 ^ 6) * 0.12 / (1550 / 10 ^ 9)) powr (- 1.5)
               + 2.879 * (2 * pi * (4.5 / 10 ^ 6) * 0.12 / (1550 / 10 ^ 9)) powr (- 6))
            * (4.5 / 10 ^ 6))"
proof -
  have h: "0 < wavelength (fiber_parameters reference_library)"
    "0 < core_radius (fiber_parameters reference_library)"
    "0 < na (fiber_parameters reference_library)"
    by (simp_all add: fiber_parameters_def)
  have e: "wavelength (fiber_parameters reference_library) = 1550 / 10 ^ 9"
    "core_radius (fiber_parameters reference_library) = 4.5 / 10 ^ 6"
    "na (fiber_parameters reference_library) = 0.12"
    by (simp_all add: fiber_parameters_def)
  show ?thesis
    using h calculate_mfd_formula [OF h] default_v_number_bounds(2)
    unfolding e by simp
qed

section \<open>Beam analysis\<close>

lemma length_takeWhile_less:
  assumes "\<exists>x\<in>set xs. \<not> P x"
  shows "length (takeWhile P xs) < length xs"
proof (rule ccontr)
  assume "\<not> length (takeWhile P xs) < length xs"
  then have "length (takeWhile P xs) = length xs"
    using length_takeWhile_le [of P xs] by simp
  then have "takeWhile P xs = xs"
    using takeWhile_eq_take [of P xs] by simp
  then show False
    using assms by simp
qed

lemma hd_filter_first_above:
  assumes "\<exists>x\<in>set xs. t < x"
  shows "hd (filter (\<lambda>i. t < xs ! i) [0..<length xs]) = first_above t xs"
proof -
  let ?Q = "\<lambda>x. \<not> t < x"
  let ?k = "length (takeWhile ?Q xs)"
  have k: "?k < length xs"
    using assms by (intro length_takeWhile_less) auto
  have at_k: "t < xs ! ?k"
    using nth_length_takeWhile [OF k] by simp
  have before: "\<not> t < xs ! i" if "i < ?k" for i
  proof -
    have "takeWhile ?Q xs ! i \<in> set (takeWhile ?Q xs)"
      using that by simp
    then have "?Q (takeWhile ?Q xs ! i)"
      by (rule set_takeWhileD [THEN conjunct2])
    then show ?thesis
      using that by (simp add: takeWhile_nth)
  qed
  have split: "[0..<length xs] = [0..<?k] @ ?k # [Suc ?k..<length xs]"
    using k by (metis less_imp_le_nat upt_add_eq_append le0 add_0 le_add_diff_inverse upt_conv_Cons)
  have "filter (\<lambda>i. t < xs ! i) [0..<?k] = []"
    using before by (simp add: filter_empty_conv)
  then show ?thesis
    using at_k by (simp add: split first_above_def)
qed

lemma last_filter_last_above:
  assumes "\<exists>x\<in>set xs. t < x"
  shows "last (filter (\<lambda>i. t < xs ! i) [0..<length xs]) = last_above t xs"
proof -
  let ?Q = "\<lambda>x. \<not> t < x"
  let ?r = "length (takeWhile ?Q (rev xs))"
  let ?m = "length xs - 1 - ?r"
  have r: "?r < length xs"
    using assms length_takeWhile_less [of "rev xs" ?Q] by auto
  then have m: "?m < length xs" by simp
  have rev_m: "rev xs ! ?r = xs ! ?m"
    using r by (simp add: rev_nth)
  have at_m: "t < xs ! ?m"
    using nth_length_takeWhile [of ?Q "rev xs"] r rev_m by simp
  have after: "\<not> t < xs ! i" if "?m < i" "i < length xs" for i
  proof -
    let ?j = "length xs - 1 - i"
    have j: "?j < ?r" using that r by linarith
    have "takeWhile ?Q (rev xs) ! ?j \<in> set (takeWhile ?Q (rev xs))"
      using j by simp
    then have "?Q (takeWhile ?Q (rev xs) ! ?j)"
      by (rule set_takeWhileD [THEN conjunct2])
    then have "?Q (rev xs ! ?j)"
      using j by (simp add: takeWhile_nth)
    moreover have "rev xs ! ?j = xs ! i"
      using that by (simp add: rev_nth)
    ultimately show ?thesis by simp
  qed
  have split: "[0..<length xs] = [0..<?m] @ ?m # [Suc ?m..<length xs]"
    using m by (metis less_imp_le_nat upt_add_eq_append le0 add_0 le_add_diff_inverse upt_conv_Cons)
  have "filter (\<lambda>i. t < xs ! i) [Suc ?m..<length xs] = []"
    using after by (auto simp: filter_empty_conv)
  then show ?thesis
    using at_m by (simp add: split last_above_def)
qed

lemma first_le_last_above:
  assumes "\<exists>x\<in>set xs. t < x"
  shows "first_above t xs \<le> last_above t xs"
proof -
  let ?f = "filter (\<lambda>i. t < xs ! i) [0..<length xs]"
  have ne: "?f \<noteq> []"
    using assms by (fastforce simp: filter_empty_conv in_set_conv_nth)
  have "sorted ?f" by (simp add: sorted_wrt_filter)
  then have "hd ?f \<le> last ?f"
    using ne by (metis last_in_set list.collapse order_refl set_ConsD sorted_simps(2))
  then show ?thesis
    using assms by (simp add: hd_filter_first_above last_filter_last_above)
qed

lemma exp_one_sq_gt_one: "1 < (exp 1 :: real)\<^sup>2"
proof -
  have "1 < (exp 1 :: real)" by (rule exp_gt_one) simp
  then show ?thesis by (simp add: one_less_power)
qed

text \<open>
  Claim C2.  For every input field whose centre row exists and holds a sample strictly
  above the threshold, \<open>analyze_beam\<close> takes the pointwise squared magnitude as
  intensity, the intensity row at index \<open>N div 2\<close> as cross-section, the maximum of the
  whole 2D intensity divided by \<open>e\<^sup>2\<close> as threshold, and returns as \<open>beam_width\<close> the
  index of the last sample strictly above the threshold minus the index of the first one,
  times \<open>L / N\<close>.
\<close>

theorem analyze_beam_width:
  fixes s :: simulator and beam :: Field
  defines "intensity \<equiv> map (map (\<lambda>z. (cmod z)\<^sup>2)) (field beam)"
  defines "x_profile \<equiv> intensity ! (grid_size s div 2)"
  defines "threshold \<equiv> Max (set (concat intensity)) / (exp 1)\<^sup>2"
  assumes rows: "grid_size s div 2 < length (field beam)"
    and above: "\<exists>x\<in>set x_profile. threshold < x"
    and grid: "0 < grid_size s"
  shows "analyze_beam s beam =
    Inr [(''intensity'', Array2 intensity),
         (''beam_width'', Scalar (NpFloat (Finite
            ((real (last_above threshold x_profile) - real (first_above threshold x_profile))
              * (physical_size s / real (grid_size s)))))),
         (''max_intensity'', Scalar (NpFloat (Finite (Max (set (concat intensity)))))),
         (''x_coords'', Array1
            (np_linspace (- physical_size s / 2) (physical_size s / 2) (grid_size s))),
         (''x_profile'', Array1 x_profile)]"
proof -
  let ?idx = "filter (\<lambda>i. threshold < x_profile ! i) [0..<length x_profile]"
  have I: "Intensity beam = intensity"
    by (simp add: Intensity_def intensity_def)
  have len: "\<not> length intensity \<le> grid_size s div 2"
    using rows by (simp add: intensity_def)
  have row_in: "x_profile \<in> set intensity"
    using len by (simp add: x_profile_def)
  have "x_profile \<noteq> []"
    using above by auto
  then have ne: "concat intensity \<noteq> []"
    using row_in by (auto simp: concat_eq_Nil_conv)
  have idx_ne: "?idx \<noteq> []"
    using above by (fastforce simp: filter_empty_conv in_set_conv_nth)
  have hd_eq: "hd ?idx = first_above threshold x_profile"
    using above by (rule hd_filter_first_above)
  have last_eq: "last ?idx = last_above threshold x_profile"
    using above by (rule last_filter_last_above)
  have width: "np_div (of_int (int (last ?idx) - int (hd ?idx)) * physical_size s) (grid_size s)
      = Finite ((real (last_above threshold x_profile) - real (first_above threshold x_profile))
              * (physical_size s / real (grid_size s)))"
    using grid by (simp add: np_div_def hd_eq last_eq)
  show ?thesis
    unfolding analyze_beam_def I Let_def
    using len ne idx_ne width
    by (simp del: set_concat add: x_profile_def [symmetric] threshold_def [symmetric])
qed

lemma SMF28_grid [simp]:
  "grid_size (SMF28 LP) = 512" "physical_size (SMF28 LP) = 500 / 10 ^ 6"
  by (simp_all add: SMF28_def fiber_parameters_def Let_def)

lemma threshold_1: "0 < 1 / (exp 1 :: real)\<^sup>2" "1 / (exp 1 :: real)\<^sup>2 < 1"
  using exp_one_sq_gt_one by simp_all

lemma two_spot_intensity_row:
  "map (\<lambda>z. (cmod z)\<^sup>2) two_spot_row
     = replicate 100 0 @ [1] @ replicate 199 0 @ [1] @ replicate 211 0"
  by (simp add: two_spot_row_def)

lemma two_spot_profile:
  "map (map (\<lambda>z. (cmod z)\<^sup>2)) (field two_spot_field) ! (512 div 2)
     = replicate 100 0 @ [1] @ replicate 199 0 @ [1] @ replicate 211 0"
  by (simp add: two_spot_field_def nth_append two_spot_intensity_row)

lemma two_spot_max:
  "Max (set (concat (map (map (\<lambda>z. (cmod z)\<^sup>2)) (field two_spot_field)))) = 1"
proof -
  have "set (concat (map (map (\<lambda>z. (cmod z)\<^sup>2)) (field two_spot_field))) = {0, 1}"
    by (auto simp: two_spot_field_def two_spot_row_def)
  then show ?thesis by simp
qed

lemma takeWhile_replicate_Cons:
  assumes "P x" and "\<not> P y"
  shows "takeWhile P (replicate n x @ y # ys) = replicate n x"
  using assms by (induction n) simp_all

lemma first_above_replicate:
  assumes "\<not> t < x" and "t < y"
  shows "first_above t (replicate n x @ y # ys) = n"
  using assms by (simp add: first_above_def takeWhile_replicate_Cons)

lemma last_above_replicate:
  assumes "\<not> t < x" and "t < y"
  shows "last_above t (ys @ y # replicate n x) = length ys"
proof -
  have "rev (ys @ y # replicate n x) = replicate n x @ y # rev ys"
    by simp
  moreover have "takeWhile (\<lambda>x. \<not> t < x) (replicate n x @ y # rev ys) = replicate n x"
    using assms by (intro takeWhile_replicate_Cons) simp_all
  ultimately have "length (takeWhile (\<lambda>x. \<not> t < x) (rev (ys @ y # replicate n x))) = n"
    by (simp only: length_replicate)
  then show ?thesis
    by (simp add: last_above_def)
qed

lemma two_spot_first:
  "first_above (1 / (exp 1)\<^sup>2) (replicate 100 0 @ [1] @ replicate 199 0 @ [1] @ replicate 211 0) = 100"
  using threshold_1 first_above_replicate [of "1 / (exp 1)\<^sup>2" 0 1 100] by simp

lemma two_spot_last:
  "last_above (1 / (exp 1)\<^sup>2) (replicate 100 0 @ [1] @ replicate 199 0 @ [1] @ replicate 211 0) = 300"
  using threshold_1
    last_above_replicate [of "1 / (exp 1)\<^sup>2" 0 1 "replicate 100 0 @ [1] @ replicate 199 0" 211]
  by simp


theorem analyze_beam_width_witness:
  "grid_size (SMF28 reference_library) div 2 < length (field two_spot_field) \<and>
   (\<exists>x\<in>set (map (map (\<lambda>z. (cmod z)\<^sup>2)) (field two_spot_field)
               ! (grid_size (SMF28 reference_library) div 2)).
      Max (set (concat (map (map (\<lambda>z. (cmod z)\<^sup>2)) (field two_spot_field)))) / (exp 1)\<^sup>2 < x) \<and>
   0 < grid_size (SMF28 reference_library) \<and>
   analyze_beam (SMF28 reference_library) two_spot_field =
     Inr [(''intensity'', Array2 (map (map (\<lambda>z. (cmod z)\<^sup>2)) (field two_spot_field))),
          (''beam_width'', Scalar (NpFloat (Finite ((300 - 100) * (500 / 10 ^ 6 / 512))))),
          (''max_intensity'', Scalar (NpFloat (Finite 1))),
          (''x_coords'', Array1 (np_linspace (- (500 / 10 ^ 6) / 2) (500 / 10 ^ 6 / 2) 512)),
          (''x_profile'',
             Array1 (replicate 100 0 @ [1] @ replicate 199 0 @ [1] @ replicate 211 0))]"
proof -
  let ?s = "SMF28 reference_library"
  let ?I = "map (map (\<lambda>z. (cmod z)\<^sup>2)) (field two_spot_field)"
  have g: "grid_size ?s div 2 = 512 div 2"
    by simp
  have h1: "grid_size ?s div 2 < length (field two_spot_field)"
    by (simp add: two_spot_field_def)
  have h2: "\<exists>x\<in>set (?I ! (grid_size ?s div 2)). Max (set (concat ?I)) / (exp 1)\<^sup>2 < x"
    unfolding g two_spot_profile two_spot_max using threshold_1(2) by simp
  have h3: "0 < grid_size ?s"
    by simp
  have "analyze_beam ?s two_spot_field =
     Inr [(''intensity'', Array2 ?I),
          (''beam_width'', Scalar (NpFloat (Finite ((300 - 100) * (500 / 10 ^ 6 / 512))))),
          (''max_intensity'', Scalar (NpFloat (Finite 1))),
          (''x_coords'', Array1 (np_linspace (- (500 / 10 ^ 6) / 2) (500 / 10 ^ 6 / 2) 512)),
          (''x_profile'',
             Array1 (replicate 100 0 @ [1] @ replicate 199 0 @ [1] @ replicate 211 0))]"
    using analyze_beam_width [OF h1 h2 h3]
    unfolding g two_spot_profile two_spot_max two_spot_first two_spot_last SMF28_grid
    by simp
  with h1 h2 h3 show ?thesis
    by blast
qed

lemma constant_field_intensity:
  "map (map (\<lambda>z. (cmod z)\<^sup>2)) (field (constant_field c)) = replicate 512 (replicate 512 ((cmod c)\<^sup>2))"
  by (simp add: constant_field_def)

lemma constant_field_max:
  "Max (set (concat (replicate 512 (replicate 512 (x::real))))) = x"
proof -
  have "set (concat (replicate 512 (replicate 512 x))) = {x}"
    by auto
  then show ?thesis by simp
qed

theorem analyze_beam_zero_field:
  "map_sum id (map fst) (analyze_beam (SMF28 reference_library) (constant_field 0)) =
     Inr [''intensity'', ''beam_width'', ''max_intensity'', ''x_coords'', ''x_profile''] \<and>
   and_then (analyze_beam (SMF28 reference_library) (constant_field 0))
     (\<lambda>d. getitem d ''beam_width'') = Inr (Scalar (PyInt 0))"
proof -
  have "analyze_beam (SMF28 reference_library) (constant_field 0) =
    Inr [(''intensity'', Array2 (replicate 512 (replicate 512 0))),
         (''beam_width'', Scalar (PyInt 0)),
         (''max_intensity'', Scalar (NpFloat (Finite 0))),
         (''x_coords'', Array1 (np_linspace (- (500 / 10 ^ 6) / 2) (500 / 10 ^ 6 / 2) 512)),
         (''x_profile'', Array1 (replicate 512 0))]"
    unfolding analyze_beam_def Intensity_def Let_def constant_field_intensity SMF28_grid
    by (simp del: set_concat add: constant_field_max filter_empty_conv)
  then show ?thesis
    by (simp add: and_then_def getitem_def)
qed

text \<open>
  Claim C4, as amended.  When no sample of the centre row is strictly above the threshold
  (for example on the constant zero field), \<open>analyze_beam\<close> does not raise and returns
  \<open>beam_width = 0\<close> (the Python integer); the dictionary it returns has exactly the five
  entries \<open>intensity\<close>, \<open>beam_width\<close>, \<open>max_intensity\<close>, \<open>x_coords\<close> and
  \<open>x_profile\<close>, and carries no degenerate flag.
\<close>

theorem analyze_beam_degenerate:
  fixes s :: simulator and beam :: Field
  defines "intensity \<equiv> map (map (\<lambda>z. (cmod z)\<^sup>2)) (field beam)"
  defines "x_profile \<equiv> intensity ! (grid_size s div 2)"
  defines "threshold \<equiv> Max (set (concat intensity)) / (exp 1)\<^sup>2"
  assumes rows: "grid_size s div 2 < length (field beam)"
    and elems: "concat (field beam) \<noteq> []"
    and none: "\<forall>x\<in>set x_profile. \<not> threshold < x"
  shows "analyze_beam s beam =
    Inr [(''intensity'', Array2 intensity),
         (''beam_width'', Scalar (PyInt 0)),
         (''max_intensity'', Scalar (NpFloat (Finite (Max (set (concat intensity)))))),
         (''x_coords'', Array1
            (np_linspace (- physical_size s / 2) (physical_size s / 2) (grid_size s))),
         (''x_profile'', Array1 x_profile)]"
proof -
  let ?idx = "filter (\<lambda>i. threshold < x_profile ! i) [0..<length x_profile]"
  have I: "Intensity beam = intensity"
    by (simp add: Intensity_def intensity_def)
  have len: "\<not> length intensity \<le> grid_size s div 2"
    using rows by (simp add: intensity_def)
  have ne: "concat intensity \<noteq> []"
    using elems by (auto simp: intensity_def concat_eq_Nil_conv)
  have idx: "?idx = []"
    using none by (simp add: filter_empty_conv)
  show ?thesis
    unfolding analyze_beam_def I Let_def
    using len ne idx
    by (simp del: set_concat add: x_profile_def [symmetric] threshold_def [symmetric])
qed

theorem analyze_beam_degenerate_witness:
  "grid_size (SMF28 reference_library) div 2 < length (field (constant_field 0)) \<and>
   concat (field (constant_field 0)) \<noteq> [] \<and>
   analyze_beam (SMF28 reference_library) (constant_field 0) =
    Inr [(''intensity'', Array2 (replicate 512 (replicate 512 0))),
         (''beam_width'', Scalar (PyInt 0)),
         (''max_intensity'', Scalar (NpFloat (Finite 0))),
         (''x_coords'', Array1 (np_linspace (- (500 / 10 ^ 6) / 2) (500 / 10 ^ 6 / 2) 512)),
         (''x_profile'', Array1 (replicate 512 0))]"
proof -
  let ?s = "SMF28 reference_library"
  let ?I = "map (map (\<lambda>z. (cmod z)\<^sup>2)) (field (constant_field 0))"
  have h1: "grid_size ?s div 2 < length (field (constant_field 0))"
    by (simp add: constant_field_def)
  have h2: "concat (field (constant_field 0)) \<noteq> []"
    by (simp add: constant_field_def concat_eq_Nil_conv)
  have h3: "\<forall>x\<in>set (?I ! (grid_size ?s div 2)). \<not> Max (set (concat ?I)) / (exp 1)\<^sup>2 < x"
    unfolding constant_field_intensity constant_field_max by simp
  show ?thesis
    using h1 h2 analyze_beam_degenerate [OF h1 h2 h3]
    unfolding constant_field_intensity constant_field_max SMF28_grid
    by simp
qed

section \<open>The constructor\<close>

theorem construct_with_wavelength:
  "construct reference_library [] [(''wavelength'', Scalar (PyInt (- 1)))] = Inl TypeError \<and>
   construct reference_library [] [(''wavelength'', Scalar (NpFloat (Finite (1550 / 10 ^ 9))))]
     = Inl TypeError"
  by (simp add: construct_def)

text \<open>
  Claim C6, as amended.  The constructor takes no argument and validates nothing: called
  without arguments it always succeeds and returns the simulator of the fixed constants
  wavelength \<open>1550e-9\<close>, core radius \<open>4.5e-6\<close> and NA \<open>0.12\<close> (all positive) with the
  V number computed from them; called with any argument, positive or not, it fails with
  Python's \<open>TypeError\<close>.  No \<open>ConfigurationError\<close> exists.
\<close>

theorem construct_no_validation:
  "construct LP args kwargs =
     (if args = [] \<and> kwargs = [] then Inr (SMF28 LP) else Inl TypeError) \<and>
   wavelength (SMF28 LP) = 1550 / 10 ^ 9 \<and> 0 < wavelength (SMF28 LP) \<and>
   core_radius (SMF28 LP) = 4.5 / 10 ^ 6 \<and> 0 < core_radius (SMF28 LP) \<and>
   na (SMF28 LP) = 0.12 \<and> 0 < na (SMF28 LP) \<and>
   v_number (SMF28 LP) = 2 * pi * core_radius (SMF28 LP) * na (SMF28 LP) / wavelength (SMF28 LP)"
  by (simp add: construct_def init_SMF28 SMF28_def fiber_parameters_def Let_def)

section \<open>The end-face pipelines and the sampling criterion\<close>

theorem sampling_violation_unflagged:
  "\<not> fresnel_sampling_ok (SMF28 reference_library) (1 / 10 ^ 3) \<and>
   flat_endface reference_library (SMF28 reference_library) (1 / 10 ^ 3) =
     ref_Fresnel (create_fiber_mode reference_library (SMF28 reference_library)) (1 / 10 ^ 3) \<and>
   \<not> fresnel_sampling_ok (SMF28 reference_library) 1 \<and>
   flat_endface reference_library (SMF28 reference_library) 1 =
     ref_Fresnel (create_fiber_mode reference_library (SMF28 reference_library)) 1"
  by (simp add: fresnel_sampling_ok_def SMF28_def fiber_parameters_def Let_def
      flat_endface_def reference_library_def power2_eq_square)

text \<open>
  Claim C7, as amended.  \<open>flat_endface\<close> and \<open>concave_endface\<close> call the propagator
  unconditionally and return its output unchanged, for every distance and every library:
  the source makes no sampling check and raises no warning, whether or not the Fresnel
  sampling criterion holds.
\<close>

theorem endface_propagates_unconditionally:
  "flat_endface LP s distance = Fresnel LP (create_fiber_mode LP s) distance \<and>
   concave_endface LP s curvature_radius aperture_factor distance =
     Fresnel LP
       (CircAperture LP
          (SubPhase LP (create_fiber_mode LP s)
             (phase_mask s curvature_radius (core_radius s * aperture_factor)))
          (core_radius s * aperture_factor))
       distance"
  by (simp add: flat_endface_def concave_endface_def Let_def)

section \<open>The concave end face\<close>

lemma np_linspace_length: "length (np_linspace a b n) = n"
  by (simp add: np_linspace_def)

lemma np_linspace_nth:
  assumes "i < n"
  shows "np_linspace a b n ! i = a + real i * ((b - a) / real (n - 1))"
  using assms by (auto simp: np_linspace_def)

lemma window_linspace_nth:
  assumes "i < grid_size s"
  shows "np_linspace (- physical_size s / 2) (physical_size s / 2) (grid_size s) ! i
           = grid_coordinate s i"
  using assms by (simp add: np_linspace_nth grid_coordinate_def)

lemma concave_endface_pipeline:
  "concave_endface LP s curvature_radius aperture_factor distance =
     Fresnel LP
       (CircAperture LP
          (SubPhase LP (create_fiber_mode LP s)
             (phase_mask s curvature_radius (core_radius s * aperture_factor)))
          (core_radius s * aperture_factor))
       distance"
  by (simp add: concave_endface_def Let_def)

lemma phase_mask_nth:
  assumes j: "j < grid_size s" and i: "i < grid_size s"
  shows "length (phase_mask s curvature_radius aperture_radius) = grid_size s"
    and "length (phase_mask s curvature_radius aperture_radius ! j) = grid_size s"
    and "phase_mask s curvature_radius aperture_radius ! j ! i =
           (if radial_distance s j i \<le> aperture_radius
            then (2 * pi / wavelength s) * (radial_distance s j i)\<^sup>2 / (2 * curvature_radius)
            else 0)"
proof -
  define x where "x = np_linspace (- physical_size s / 2) (physical_size s / 2) (grid_size s)"
  have lx: "length x = grid_size s"
    by (simp only: x_def np_linspace_length)
  have xi: "x ! i = grid_coordinate s i" and xj: "x ! j = grid_coordinate s j"
    unfolding x_def using i j by (simp_all only: window_linspace_nth)
  have pm: "phase_mask s curvature_radius aperture_radius =
      map (\<lambda>Y. map (\<lambda>X.
            (let R = sqrt (X\<^sup>2 + Y\<^sup>2)
             in if R \<le> aperture_radius
                then 2 * pi / wavelength s * R\<^sup>2 / (2 * curvature_radius) else 0)) x) x"
    unfolding phase_mask_def Let_def x_def by (rule refl)
  show "length (phase_mask s curvature_radius aperture_radius) = grid_size s"
    by (simp add: pm lx)
  show "length (phase_mask s curvature_radius aperture_radius ! j) = grid_size s"
    using j by (simp add: pm lx)
  have "phase_mask s curvature_radius aperture_radius ! j ! i =
      (let R = sqrt ((x ! i)\<^sup>2 + (x ! j)\<^sup>2)
       in if R \<le> aperture_radius
          then 2 * pi / wavelength s * R\<^sup>2 / (2 * curvature_radius) else 0)"
    using i j by (simp add: pm lx)
  then show "phase_mask s curvature_radius aperture_radius ! j ! i =
           (if radial_distance s j i \<le> aperture_radius
            then (2 * pi / wavelength s) * (radial_distance s j i)\<^sup>2 / (2 * curvature_radius)
            else 0)"
    unfolding xi xj by (simp add: radial_distance_def Let_def)
qed

lemma SMF28_fields [simp]:
  "core_radius (SMF28 LP) = 4.5 / 10 ^ 6" "wavelength (SMF28 LP) = 1550 / 10 ^ 9"
  by (simp_all add: SMF28_def fiber_parameters_def Let_def)

lemma radial_distance_centre:
  "radial_distance (SMF28 LP) 256 256 \<le> core_radius (SMF28 LP) * 2"
  unfolding radial_distance_def
  by (rule real_le_lsqrt) (simp_all add: grid_coordinate_def power2_eq_square)

lemma mask_coordinate_256:
  "grid_coordinate (SMF28 LP) 256 = 250 / 10 ^ 6 / 511"
  by (simp add: grid_coordinate_def SMF28_def fiber_parameters_def Let_def)

lemma mask_coordinate_265:
  "grid_coordinate (SMF28 LP) 265 = 19 * (250 / 10 ^ 6 / 511)"
  by (simp add: grid_coordinate_def SMF28_def fiber_parameters_def Let_def)

lemma mask_radius_256_265:
  "\<not> radial_distance (SMF28 LP) 256 265 \<le> core_radius (SMF28 LP) * 2"
proof -
  have "core_radius (SMF28 LP) * 2 < radial_distance (SMF28 LP) 256 265"
    unfolding radial_distance_def mask_coordinate_256 mask_coordinate_265
    by (rule real_less_rsqrt) (simp add: power2_eq_square)
  then show ?thesis by simp
qed

lemma mask_radius_256_256:
  "(radial_distance (SMF28 LP) 256 256)\<^sup>2 = 2 * (250 / 10 ^ 6 / 511)\<^sup>2"
  unfolding radial_distance_def mask_coordinate_256 by simp

lemma phase_256_265:
  "phase_mask (SMF28 LP) (50 / 10 ^ 6) (core_radius (SMF28 LP) * 2) ! 256 ! 265 = 0"
proof -
  have "(256::nat) < grid_size (SMF28 LP)" "(265::nat) < grid_size (SMF28 LP)" by simp_all
  then show ?thesis
    using mask_radius_256_265 [of LP] by (simp only: phase_mask_nth(3) if_False)
qed

lemma phase_256_256:
  "phase_mask (SMF28 LP) (50 / 10 ^ 6) (core_radius (SMF28 LP) * 2) ! 256 ! 256 =
     2 * pi / (1550 / 10 ^ 9) * (2 * (250 / 10 ^ 6 / 511)\<^sup>2) / (2 * (50 / 10 ^ 6))"
proof -
  have "(256::nat) < grid_size (SMF28 LP)" by simp
  then show ?thesis
    using radial_distance_centre [of LP]
    by (simp only: phase_mask_nth(3) if_True mask_radius_256_256 SMF28_fields)
qed

lemma on_grid_grid [simp]: "N (on_grid g F) = N F" "siz (on_grid g F) = siz F"
  by (simp_all add: on_grid_def)

lemma sample_on_grid:
  assumes "j < N F" "i < N F"
  shows "sample (on_grid g F) j i = g j i"
  using assms by (simp add: sample_def on_grid_def)

lemma ref_grid [simp]:
  "N (ref_GaussBeam F w) = N F" "siz (ref_GaussBeam F w) = siz F"
  "N (ref_CircAperture F r) = N F" "siz (ref_CircAperture F r) = siz F"
  "N (ref_SubPhase F p) = N F" "siz (ref_SubPhase F p) = siz F"
  by (simp_all add: ref_GaussBeam_def ref_CircAperture_def ref_SubPhase_def)

lemma fiber_mode_grid:
  "N (create_fiber_mode reference_library (SMF28 reference_library)) = 512"
  "siz (create_fiber_mode reference_library (SMF28 reference_library)) = 500 / 10 ^ 6"
  by (simp_all add: create_fiber_mode_def reference_library_def SMF28_def fiber_parameters_def Let_def ref_Begin_def)

lemma fiber_mode_grid_point:
  "grid_point (create_fiber_mode reference_library (SMF28 reference_library)) i
     = (real i - 256) * (500 / 10 ^ 6 / 512)"
  by (simp add: grid_point_def fiber_mode_grid)

lemma grid_point_ref [simp]:
  "grid_point (on_grid g F) i = grid_point F i"
  "grid_point (ref_GaussBeam F w) i = grid_point F i"
  "grid_point (ref_CircAperture F r) i = grid_point F i"
  "grid_point (ref_SubPhase F p) i = grid_point F i"
  by (simp_all add: grid_point_def)

lemma fiber_mode_reference:
  "create_fiber_mode reference_library s =
     ref_CircAperture (ref_GaussBeam (lp s) (mfd s / 2)) (cladding_radius s)"
  by (simp add: create_fiber_mode_def reference_library_def Let_def)

lemma sample_GaussBeam:
  assumes "j < N F" "i < N F"
  shows "sample (ref_GaussBeam F w0) j i =
           of_real (exp (- ((grid_point F i)\<^sup>2 + (grid_point F j)\<^sup>2) / w0\<^sup>2))"
  using assms by (simp only: ref_GaussBeam_def sample_on_grid)

lemma sample_CircAperture:
  assumes "j < N F" "i < N F"
  shows "sample (ref_CircAperture F r) j i =
           (if sqrt ((grid_point F i)\<^sup>2 + (grid_point F j)\<^sup>2) \<le> r then sample F j i else 0)"
  using assms by (simp only: ref_CircAperture_def sample_on_grid)

lemma sample_SubPhase:
  assumes "j < N F" "i < N F" "j < length phase" "i < length (phase ! j)"
  shows "sample (ref_SubPhase F phase) j i = sample F j i * cis (phase ! j ! i)"
  using assms by (simp add: ref_SubPhase_def sample_on_grid)

lemma fiber_mode_sample:
  assumes "j < N (lp s)" "i < N (lp s)"
    and "sqrt ((grid_point (lp s) i)\<^sup>2 + (grid_point (lp s) j)\<^sup>2) \<le> cladding_radius s"
  shows "sample (create_fiber_mode reference_library s) j i \<noteq> 0"
  unfolding fiber_mode_reference
  using assms by (simp add: sample_CircAperture sample_GaussBeam)

text \<open>
  Claim C3.  For every curvature radius \<open>R > 0\<close> and aperture factor,
  \<open>concave_endface\<close> builds a phase profile that equals \<open>k \<sqdot> \<rho>\<^sup>2 / (2 \<sqdot> R)\<close> with
  \<open>k = 2\<pi> / wavelength\<close> at every grid point whose radial distance \<open>\<rho>\<close> is at most
  \<open>aperture_radius = core_radius \<times> aperture_factor\<close> and \<open>0\<close> at every other point,
  applies it to the seeded fiber mode, then clips with a circular aperture of the same
  \<open>aperture_radius\<close>, and only then propagates.

  The order of the three steps and the shared \<open>aperture_radius\<close> are as claimed
  (\<open>concave_endface_pipeline\<close>), but the profile is not: the source measures \<open>\<rho>\<close> on
  coordinates \<open>np.linspace(-L/2, L/2, N)\<close>, which are \<open>L / (N - 1)\<close> apart and have no
  sample at \<open>0\<close> (\<open>phase_mask_nth\<close>), whereas the samples of the field are \<open>L / N\<close> apart
  with sample \<open>N / 2\<close> on the axis, the spacing \<open>analyze_beam\<close> itself uses for the beam
  width.  At the default configuration, with \<open>R = 50e-6\<close>, aperture factor \<open>2\<close> and
  distance \<open>1e-3\<close> as \<open>parameter_study\<close> calls it, the sample in row \<open>256\<close> and column
  \<open>265\<close> of the field lies at \<open>\<rho> = 9 \<sqdot> L / 512 \<le> aperture_radius\<close>, where the claimed
  phase \<open>k \<sqdot> \<rho>\<^sup>2 / (2 \<sqdot> R)\<close> is not zero; the profile is \<open>0\<close> there, and the sample, which
  is not zero, passes the phase step and the clip unchanged.  The sample on the axis, in
  row and column \<open>256\<close>, has \<open>\<rho> = 0\<close> and a profile that is not \<open>0\<close>.
\<close>

theorem concave_endface_phase_misaligned:
  fixes s :: simulator and beam :: Field and aperture_radius :: real
    and phase :: "real list list"
  defines "s \<equiv> SMF28 reference_library"
  defines "beam \<equiv> create_fiber_mode reference_library s"
  defines "aperture_radius \<equiv> core_radius s * 2"
  defines "phase \<equiv> phase_mask s (50 / 10 ^ 6) aperture_radius"
  shows "concave_endface reference_library s (50 / 10 ^ 6) 2 (1 / 10 ^ 3) =
           ref_Fresnel (ref_CircAperture (ref_SubPhase beam phase) aperture_radius) (1 / 10 ^ 3)
       \<and> sqrt ((grid_point beam 265)\<^sup>2 + (grid_point beam 256)\<^sup>2) = 9 * (500 / 10 ^ 6 / 512)
       \<and> sqrt ((grid_point beam 265)\<^sup>2 + (grid_point beam 256)\<^sup>2) \<le> aperture_radius
       \<and> 2 * pi / wavelength s * (9 * (500 / 10 ^ 6 / 512))\<^sup>2 / (2 * (50 / 10 ^ 6)) \<noteq> 0
       \<and> phase ! 256 ! 265 = 0
       \<and> sample (ref_CircAperture (ref_SubPhase beam phase) aperture_radius) 256 265
           = sample beam 256 265
       \<and> sample beam 256 265 \<noteq> 0
       \<and> sqrt ((grid_point beam 256)\<^sup>2 + (grid_point beam 256)\<^sup>2) = 0
       \<and> phase ! 256 ! 256 \<noteq> 0"
proof -
  have pipeline: "concave_endface reference_library s (50 / 10 ^ 6) 2 (1 / 10 ^ 3) =
      ref_Fresnel (ref_CircAperture (ref_SubPhase beam phase) aperture_radius) (1 / 10 ^ 3)"
    unfolding beam_def phase_def aperture_radius_def
    by (simp only: concave_endface_pipeline) (simp add: reference_library_def)
  have rho: "sqrt ((grid_point beam 265)\<^sup>2 + (grid_point beam 256)\<^sup>2)
               = 9 * (500 / 10 ^ 6 / 512)"
    unfolding beam_def s_def by (simp add: fiber_mode_grid_point)
  have kept: "sqrt ((grid_point beam 265)\<^sup>2 + (grid_point beam 256)\<^sup>2) \<le> aperture_radius"
    unfolding rho aperture_radius_def s_def by simp
  have claimed: "2 * pi / wavelength s * (9 * (500 / 10 ^ 6 / 512))\<^sup>2 / (2 * (50 / 10 ^ 6)) \<noteq> 0"
    unfolding s_def by simp
  have actual: "phase ! 256 ! 265 = 0"
    unfolding phase_def aperture_radius_def s_def by (rule phase_256_265)
  have g: "(256::nat) < grid_size s" "(265::nat) < grid_size s"
    unfolding s_def by simp_all
  have ph_len: "256 < length phase" "265 < length (phase ! 256)"
    unfolding phase_def using g by (simp_all only: phase_mask_nth)
  have n: "256 < N beam" "265 < N beam"
    unfolding beam_def s_def by (simp_all add: fiber_mode_grid)
  have sub: "sample (ref_SubPhase beam phase) 256 265 = sample beam 256 265"
    by (simp only: sample_SubPhase [OF n ph_len] actual cis_zero mult_1_right)
  have clip: "sample (ref_CircAperture (ref_SubPhase beam phase) aperture_radius) 256 265
                = sample (ref_SubPhase beam phase) 256 265"
    using n kept by (simp only: sample_CircAperture ref_grid grid_point_ref if_True)
  have lit: "sample beam 256 265 \<noteq> 0"
    unfolding beam_def
  proof (rule fiber_mode_sample)
    show "256 < N (lp s)" "265 < N (lp s)"
      unfolding s_def
      by (simp_all add: SMF28_def fiber_parameters_def Let_def reference_library_def
          ref_Begin_def)
    show "sqrt ((grid_point (lp s) 265)\<^sup>2 + (grid_point (lp s) 256)\<^sup>2) \<le> cladding_radius s"
      unfolding s_def
      by (simp add: grid_point_def SMF28_def fiber_parameters_def Let_def
          reference_library_def ref_Begin_def)
  qed
  have centre: "sqrt ((grid_point beam 256)\<^sup>2 + (grid_point beam 256)\<^sup>2) = 0"
    unfolding beam_def s_def by (simp add: fiber_mode_grid_point)
  have off: "phase ! 256 ! 256 \<noteq> 0"
    unfolding phase_def aperture_radius_def s_def phase_256_256 by simp
  from pipeline rho kept claimed actual sub clip lit centre off show ?thesis
    by (simp only: simp_thms)
qed

section \<open>The parameter sweep\<close>

lemma sweep_accumulates:
  "sweep LP s distance radii flats concs =
     (case radii of
        [] \<Rightarrow> Inr (flats, concs)
      | _ # _ \<Rightarrow>
          and_then (flat_beam_width LP s distance) (\<lambda>flat_width.
          and_then (concave_beam_widths LP s distance radii) (\<lambda>concave_widths.
            Inr (flats @ replicate (length radii) flat_width, concs @ concave_widths))))"
proof (induction radii arbitrary: flats concs)
  case Nil
  show ?case by simp
next
  case (Cons radius radii)
  show ?case
  proof (cases "analyze_beam s (flat_endface LP s distance)")
    case (Inl e)
    then show ?thesis
      by (simp add: and_then_def flat_beam_width_def)
  next
    case flat: (Inr flat_analysis)
    show ?thesis
    proof (cases "getitem flat_analysis ''beam_width''")
      case (Inl e)
      then show ?thesis
        using flat by (simp add: and_then_def flat_beam_width_def)
    next
      case width: (Inr flat_width)
      have fbw: "flat_beam_width LP s distance = Inr flat_width"
        using flat width by (simp add: and_then_def flat_beam_width_def)
      show ?thesis
        using flat width fbw
        by (simp add: Cons.IH and_then_def replicate_append_same
            split: sum.splits list.splits)
    qed
  qed
qed

text \<open>
  Claim C8.  The sweep recomputes the flat-endface beam in every iteration, and the flat
  beam width it obtains is the same for all curvature radii: for a non-empty list of radii
  the loop returns exactly what the cached sweep returns, which computes the flat width
  once and reuses it; in particular the list of flat widths is that one width repeated.
\<close>

theorem sweep_recomputes_flat:
  assumes "radii \<noteq> []"
  shows "sweep LP s distance radii [] [] = sweep_cached LP s distance radii
       \<and> (sweep LP s distance radii [] [] = Inr (flats, concs) \<longrightarrow>
            (\<exists>flat_width. flat_beam_width LP s distance = Inr flat_width
               \<and> flats = replicate (length radii) flat_width))"
proof -
  have eq: "sweep LP s distance radii [] [] = sweep_cached LP s distance radii"
    using assms by (cases radii) (simp_all add: sweep_accumulates sweep_cached_def)
  moreover have "\<exists>flat_width. flat_beam_width LP s distance = Inr flat_width
               \<and> flats = replicate (length radii) flat_width"
    if "sweep LP s distance radii [] [] = Inr (flats, concs)"
    using that unfolding eq
    by (auto simp: sweep_cached_def and_then_def split: sum.splits)
  ultimately show ?thesis by blast
qed


theorem sweep_recomputes_flat_witness:
  "map (\<lambda>r. r * (1 / 10 ^ 6)) [30, 50, 75, 100, 150, 200 :: real] \<noteq> [] \<and>
   sweep reference_library (SMF28 reference_library) (1 / 10 ^ 3)
     (map (\<lambda>r. r * (1 / 10 ^ 6)) [30, 50, 75, 100, 150, 200]) [] []
   = sweep_cached reference_library (SMF28 reference_library) (1 / 10 ^ 3)
       (map (\<lambda>r. r * (1 / 10 ^ 6)) [30, 50, 75, 100, 150, 200])"
proof -
  have h: "map (\<lambda>r. r * (1 / 10 ^ 6)) [30, 50, 75, 100, 150, 200 :: real] \<noteq> []"
    by simp
  show ?thesis
    using h sweep_recomputes_flat [OF h, of reference_library "SMF28 reference_library"
        "1 / 10 ^ 3"]
    by blast
qed

section \<open>The printed percentage\<close>

text \<open>
  Whenever \<open>parameter_study\<close> returns, the percentage it printed is
  \<open>divergence_increase\<close> of the last entries of the two lists of the sweep, and the
  dictionary it returns holds the radii and those two lists.
\<close>

lemma parameter_study_summary:
  assumes "parameter_study LP s = Inr (increase, result)"
  shows "\<exists>flats concs.
           sweep LP s (1 / 10 ^ 3) (map (\<lambda>r. r * (1 / 10 ^ 6)) [30, 50, 75, 100, 150, 200]) [] []
             = Inr (flats, concs)
         \<and> divergence_increase (last concs) (last flats) = Inr increase
         \<and> result =
             [(''curvature_radii'', Array1 (map (\<lambda>r. r * (1 / 10 ^ 6)) [30, 50, 75, 100, 150, 200])),
              (''beam_widths_flat'', PyList flats),
              (''beam_widths_concave'', PyList concs)]"
  using assms unfolding parameter_study_def Let_def and_then_def last_item_def
  by (auto split: sum.splits if_splits prod.splits)

theorem divergence_increase_unguarded:
  "divergence_increase (Scalar (PyInt 0)) (Scalar (PyInt 0)) = Inl ZeroDivisionError \<and>
   divergence_increase (Scalar (NpFloat (Finite 1))) (Scalar (NpFloat (Finite 0))) = Inr PosInf \<and>
   \<not> is_finite PosInf"
  by (simp add: divergence_increase_def)

text \<open>
  Claim C5, as amended.  The summary's percentage is computed as
  \<open>(concave_width / flat_width - 1) \<times> 100\<close> with no guard; whenever \<open>flat_width\<close> is
  not zero the division is defined and the percentage is that finite number (the concave
  width being a measured \<open>float64\<close> or the integer \<open>0\<close> of a degenerate profile).
\<close>

theorem divergence_increase_nonzero:
  assumes "flat_width \<noteq> 0"
  shows "divergence_increase (Scalar (NpFloat (Finite concave_width)))
           (Scalar (NpFloat (Finite flat_width)))
         = Inr (Finite ((concave_width / flat_width - 1) * 100))
       \<and> divergence_increase (Scalar (PyInt 0)) (Scalar (NpFloat (Finite flat_width)))
         = Inr (Finite ((0 / flat_width - 1) * 100))
       \<and> is_finite (Finite ((concave_width / flat_width - 1) * 100))"
  using assms by (simp add: divergence_increase_def)

theorem divergence_increase_nonzero_witness:
  "(2::real) \<noteq> 0 \<and>
   divergence_increase (Scalar (NpFloat (Finite 3))) (Scalar (NpFloat (Finite 2)))
     = Inr (Finite 50)"
proof -
  have h: "(2::real) \<noteq> 0" by simp
  show ?thesis
    using h divergence_increase_nonzero [OF h, of 3] by simp
qed

section \<open>The launcher's exit status\<close>

text \<open>
  Claim C10.  The launcher should exit with a non-zero status when the simulation fails or
  cannot be started.  It does not: when the command exits with status 1, and when the
  simulation file is missing, \<open>main\<close> returns \<open>False\<close> and the process still exits with
  status 0.
\<close>

theorem launcher_exit_code_on_failure:
  "main \<lparr>file_exists = True, returncode = 1\<rparr> = False \<and>
   exit_code \<lparr>file_exists = True, returncode = 1\<rparr> = 0 \<and>
   main \<lparr>file_exists = False, returncode = 0\<rparr> = False \<and>
   exit_code \<lparr>file_exists = False, returncode = 0\<rparr> = 0"
  by (simp add: main_def exit_code_def)

end
